theory Spec2Isabelle
  imports Main
begin

section \<open>Text primitives of the host language\<close>

text \<open>
  The module \<^verbatim>\<open>_bed_lookup.pyx\<close> reads a tab separated annotation file and answers
  "which feature covers position p on chromosome c". Text is modelled as \<^typ>\<open>string\<close>
  (a list of 8-bit characters); the annotation files in scope are ASCII, so a character
  above 0x7F is neither white space nor a digit here. A file is the list of lines that
  iterating over the open file yields, each line still carrying its terminator.
\<close>

abbreviation TAB :: char where "TAB \<equiv> CHR 0x09"
abbreviation NL :: char where "NL \<equiv> CHR 0x0A"
abbreviation QUOTE :: char where "QUOTE \<equiv> CHR 0x27"

text \<open>\<^verbatim>\<open>str.rstrip()\<close> without argument removes trailing white space: the ASCII
  characters 9 to 13, 28 to 31 and 32.\<close>

definition is_space :: "char \<Rightarrow> bool" where
  "is_space c = (let n = (of_char c :: nat) in (9 \<le> n \<and> n \<le> 13) \<or> (28 \<le> n \<and> n \<le> 32))"

definition rstrip :: "string \<Rightarrow> string" where
  "rstrip s = rev (dropWhile is_space (rev s))"

text \<open>\<^verbatim>\<open>s.split('\t')\<close>: one field more than there are tabs; the empty string gives one
  empty field.\<close>

fun split_tab :: "string \<Rightarrow> string list" where
  "split_tab [] = [[]]"
| "split_tab (c # cs) =
     (if c = TAB then [] # split_tab cs
      else (case split_tab cs of [] \<Rightarrow> [[c]] | f # fs \<Rightarrow> (c # f) # fs))"

text \<open>\<^verbatim>\<open>int(s)\<close> on a string: white space (characters 9 to 13 and 32) is removed at both
  ends, then comes an optional sign and a non-empty run of decimal digits in which single
  underscores may separate digits. Anything else raises \<^verbatim>\<open>ValueError\<close>, which is
  \<open>None\<close> here. (Interpreters that cap the number of digits of a literal are not
  modelled: such a literal is far outside the range of a C long in any case.)\<close>

definition int_space :: "char \<Rightarrow> bool" where
  "int_space c = (let n = (of_char c :: nat) in (9 \<le> n \<and> n \<le> 13) \<or> n = 32)"

definition is_digit :: "char \<Rightarrow> bool" where
  "is_digit c = (let n = (of_char c :: nat) in 48 \<le> n \<and> n \<le> 57)"

definition digit_val :: "char \<Rightarrow> int" where
  "digit_val c = int (of_char c) - 48"

fun py_digits :: "int \<Rightarrow> string \<Rightarrow> int option" where
  "py_digits acc [] = None"
| "py_digits acc (c # cs) =
     (if is_digit c then
        (case cs of
           [] \<Rightarrow> Some (10 * acc + digit_val c)
         | d # ds \<Rightarrow>
             if d = CHR ''_'' then py_digits (10 * acc + digit_val c) ds
             else py_digits (10 * acc + digit_val c) (d # ds))
      else None)"

definition py_int :: "string \<Rightarrow> int option" where
  "py_int s =
     (case dropWhile int_space (rev (dropWhile int_space (rev s))) of
        [] \<Rightarrow> None
      | c # cs \<Rightarrow>
          if c = CHR ''-'' then map_option uminus (py_digits 0 cs)
          else if c = CHR ''+'' then py_digits 0 cs
          else py_digits 0 (c # cs))"

section \<open>Data model\<close>

text \<open>The exceptions that leave the functions modelled below.\<close>

datatype py_error = ValueError | OverflowError | TypeError

text \<open>The argument \<^verbatim>\<open>location\<close> of \<^verbatim>\<open>lookup\<close> is an integer or a string.\<close>

datatype pyval = PyInt int | PyStr string

text \<open>\<^verbatim>\<open>cdef struct StartEnd: long start, end; string name\<close>. The bounds are kept as
  mathematical integers; the conversion of a host integer to a C long (64 bit) raises
  \<^verbatim>\<open>OverflowError\<close> outside the range checked by \<open>long_ok\<close>.\<close>

record StartEnd =
  se_start :: int
  se_end :: int
  se_name :: string

definition long_ok :: "int \<Rightarrow> bool" where
  "long_ok n = (- (2 ^ 63) \<le> n \<and> n < 2 ^ 63)"

text \<open>\<^verbatim>\<open>self._dict\<close>: chromosome name to the vector of its records, in file order.\<close>

type_synonym dict = "string \<rightharpoonup> StartEnd list"

section \<open>Building the in-memory index\<close>

text \<open>One iteration of the loop of \<^verbatim>\<open>_init_dict\<close>. Both \<^verbatim>\<open>int\<close> conversions run before
  the record fields are assigned, so \<^verbatim>\<open>ValueError\<close> comes before \<^verbatim>\<open>OverflowError\<close>.\<close>

definition line_fields :: "string \<Rightarrow> string list" where
  "line_fields line = split_tab (rstrip line)"

definition init_dict_line :: "dict \<Rightarrow> string \<Rightarrow> py_error + dict" where
  "init_dict_line d line =
     (let f = line_fields line in
      if length f < 4 then Inr d
      else
        (case py_int (f ! 1) of
           None \<Rightarrow> Inl ValueError
         | Some s \<Rightarrow>
             (case py_int (f ! 2) of
                None \<Rightarrow> Inl ValueError
              | Some e \<Rightarrow>
                  if long_ok s then
                    if long_ok e then
                      Inr (d(f ! 0 \<mapsto>
                        (case d (f ! 0) of None \<Rightarrow> [] | Some v \<Rightarrow> v) @
                        [\<lparr>se_start = s, se_end = e, se_name = f ! 3\<rparr>]))
                    else Inl OverflowError
                  else Inl OverflowError)))"

fun init_dict_loop :: "dict \<Rightarrow> string list \<Rightarrow> py_error + dict" where
  "init_dict_loop d [] = Inr d"
| "init_dict_loop d (line # rest) =
     (case init_dict_line d line of
        Inl e \<Rightarrow> Inl e
      | Inr d' \<Rightarrow> init_dict_loop d' rest)"

definition init_dict :: "string list \<Rightarrow> py_error + dict" where
  "init_dict bedfile = init_dict_loop Map.empty bedfile"

section \<open>Querying the in-memory index\<close>

text \<open>The diagnostics written to the error stream.\<close>

definition chromosome_warning :: "string \<Rightarrow> string" where
  "chromosome_warning chromosome =
     [NL] @ ''WARNING --> Chromosome '' @ [QUOTE] @ chromosome @ [QUOTE] @
     '' is not in the lookup table, lookup failed.'' @ [NL]"

definition location_warning :: "string \<Rightarrow> string \<Rightarrow> string" where
  "location_warning location chromosome =
     [NL] @ ''WARNING --> Location '' @ [QUOTE] @ location @ [QUOTE] @
     '' on Chromosome '' @ [QUOTE] @ chromosome @ [QUOTE] @
     '' is not in the lookup table, lookup failed.'' @ [NL]"

text \<open>The \<^verbatim>\<open>for\<close> loop of \<^verbatim>\<open>_lookup_dict\<close>: \<^verbatim>\<open>answer\<close> starts empty and the loop
  stops at the first record with \<^verbatim>\<open>start < loc < end\<close>.\<close>

fun scan :: "StartEnd list \<Rightarrow> int \<Rightarrow> string" where
  "scan [] loc = []"
| "scan (r # rs) loc =
     (if se_start r < loc \<and> loc < se_end r then se_name r else scan rs loc)"

text \<open>\<^verbatim>\<open>int(location)\<close> followed by the assignment to \<^verbatim>\<open>cdef long loc\<close>.\<close>

definition to_long :: "pyval \<Rightarrow> py_error + int" where
  "to_long location =
     (case (case location of PyInt n \<Rightarrow> Some n | PyStr s \<Rightarrow> py_int s) of
        None \<Rightarrow> Inl ValueError
      | Some n \<Rightarrow> if long_ok n then Inr n else Inl OverflowError)"

text \<open>\<^verbatim>\<open>_lookup_dict\<close>. The result is the text written to the error stream and either
  the exception raised or the string returned. The last branch concatenates the
  argument \<^verbatim>\<open>location\<close> itself into the message: with a string that is the message, with
  an integer the concatenation raises \<^verbatim>\<open>TypeError\<close> before anything is written.\<close>

definition lookup_dict :: "dict \<Rightarrow> string \<Rightarrow> pyval \<Rightarrow> string list \<times> (py_error + string)" where
  "lookup_dict d chromosome location =
     (case to_long location of
        Inl e \<Rightarrow> ([], Inl e)
      | Inr loc \<Rightarrow>
          (case d chromosome of
             None \<Rightarrow> ([chromosome_warning chromosome], Inr [])
           | Some v \<Rightarrow>
               (let answer = scan v loc in
                if answer \<noteq> [] then ([], Inr answer)
                else
                  (case location of
                     PyStr s \<Rightarrow> ([location_warning s chromosome], Inr [])
                   | PyInt n \<Rightarrow> ([], Inl TypeError)))))"

section \<open>The sqlite backend\<close>

text \<open>
  The sqlite engine is an external collaborator. Its database is modelled as one table per
  chromosome, each table the list of its rows \<open>(name, start, end)\<close> in rowid order. The
  columns \<^verbatim>\<open>start\<close> and \<^verbatim>\<open>end\<close> are declared \<^verbatim>\<open>int\<close>: a text that is a plain decimal
  integer is stored as an integer, and the model keeps any other text as text (the engine
  converts a few more spellings, reals among them, and turns integers beyond 64 bits
  into reals; neither is modelled). The engine orders any integer before any text, and
  texts bytewise. Texts spliced into a statement are taken to contain no quote character,
  and every table is taken to have its index.
\<close>

datatype sqlval = SqlInt int | SqlText string

type_synonym row = "string \<times> sqlval \<times> sqlval"

type_synonym db = "string \<rightharpoonup> row list"

fun sql_digits :: "int \<Rightarrow> string \<Rightarrow> int option" where
  "sql_digits acc [] = None"
| "sql_digits acc (c # cs) =
     (if is_digit c then
        (case cs of
           [] \<Rightarrow> Some (10 * acc + digit_val c)
         | d # ds \<Rightarrow> sql_digits (10 * acc + digit_val c) (d # ds))
      else None)"

definition sql_literal :: "string \<Rightarrow> int option" where
  "sql_literal s =
     (case s of
        [] \<Rightarrow> None
      | c # cs \<Rightarrow>
          if c = CHR ''-'' then map_option uminus (sql_digits 0 cs)
          else sql_digits 0 (c # cs))"

definition int_affinity :: "string \<Rightarrow> sqlval" where
  "int_affinity s = (case sql_literal s of Some n \<Rightarrow> SqlInt n | None \<Rightarrow> SqlText s)"

fun bytes_le :: "string \<Rightarrow> string \<Rightarrow> bool" where
  "bytes_le [] ys = True"
| "bytes_le (x # xs) [] = False"
| "bytes_le (x # xs) (y # ys) =
     (if x = y then bytes_le xs ys else (of_char x :: nat) < of_char y)"

fun sql_le :: "sqlval \<Rightarrow> sqlval \<Rightarrow> bool" where
  "sql_le (SqlInt a) (SqlInt b) = (a \<le> b)"
| "sql_le (SqlInt a) (SqlText t) = True"
| "sql_le (SqlText s) (SqlInt b) = False"
| "sql_le (SqlText s) (SqlText t) = bytes_le s t"

text \<open>The query names the index on \<^verbatim>\<open>(start, end)\<close>, so the engine visits the rows of
  the table in the order of that index: by start, then end, then rowid.\<close>

fun key_le :: "row \<Rightarrow> row \<Rightarrow> bool" where
  "key_le (n, s, e) (n', s', e') = (if s = s' then sql_le e e' else sql_le s s')"

fun index_insert :: "row \<Rightarrow> row list \<Rightarrow> row list" where
  "index_insert r [] = [r]"
| "index_insert r (x # xs) = (if key_le x r then x # index_insert r xs else r # x # xs)"

definition index_order :: "row list \<Rightarrow> row list" where
  "index_order rows = foldl (\<lambda>acc r. index_insert r acc) [] rows"

text \<open>\<^verbatim>\<open>loc BETWEEN start AND end\<close> is \<^verbatim>\<open>loc >= start AND loc <= end\<close>.\<close>

fun between :: "int \<Rightarrow> row \<Rightarrow> bool" where
  "between loc (n, s, e) = (sql_le s (SqlInt loc) \<and> sql_le (SqlInt loc) e)"

text \<open>\<^verbatim>\<open>_lookup_sqlite\<close>. The location text is spliced into the statement: the model
  covers the texts that are a plain integer literal, which is what \<^verbatim>\<open>str\<close> gives for an
  integer, and answers \<open>SqlExpression\<close> for any other text without evaluating it. A
  missing table is the \<^verbatim>\<open>OperationalError\<close> that the code turns into the chromosome
  diagnostic. \<^verbatim>\<open>fetchone\<close> gives the first matching row, a non-empty tuple, so its name
  is returned even when it is the empty string.\<close>

datatype sq_error = SqlExpression

definition lookup_sqlite ::
    "db \<Rightarrow> string \<Rightarrow> string \<Rightarrow> string list \<times> (sq_error + string)" where
  "lookup_sqlite c chromosome location =
     (case sql_literal location of
        None \<Rightarrow> ([], Inl SqlExpression)
      | Some loc \<Rightarrow>
          (case c chromosome of
             None \<Rightarrow> ([chromosome_warning chromosome], Inr [])
           | Some rows \<Rightarrow>
               (case find (between loc) (index_order rows) of
                  Some (n, s, e) \<Rightarrow> ([], Inr n)
                | None \<Rightarrow> ([location_warning location chromosome], Inr []))))"

text \<open>\<^verbatim>\<open>_init_sqlite\<close>: an existing database file is used as it is; otherwise every line
  with at least four fields becomes a row of the table of its chromosome.\<close>

definition insert_row :: "db \<Rightarrow> string list \<Rightarrow> db" where
  "insert_row c f =
     c(f ! 0 \<mapsto> (case c (f ! 0) of None \<Rightarrow> [] | Some rows \<Rightarrow> rows) @
                 [(f ! 3, int_affinity (f ! 1), int_affinity (f ! 2))])"

fun init_sqlite_loop :: "db \<Rightarrow> string list \<Rightarrow> db" where
  "init_sqlite_loop c [] = c"
| "init_sqlite_loop c (line # rest) =
     (if length (line_fields line) < 4 then init_sqlite_loop c rest
      else init_sqlite_loop (insert_row c (line_fields line)) rest)"

definition info_large :: string where
  "info_large = ''INFO --> Bedfile is large, using sqlite'' @ [NL]"

definition info_existing :: "string \<Rightarrow> string" where
  "info_existing db_name =
     ''INFO --> Using existing db, if this is not what you want, delete '' @ db_name @ [NL]"

definition info_creating :: string where
  "info_creating = ''INFO --> Creating sqlite database, this may take a long time.'' @ [NL]"

definition init_sqlite :: "string \<Rightarrow> db option \<Rightarrow> string list \<Rightarrow> string list \<times> db" where
  "init_sqlite bedfile existing lines =
     (case existing of
        Some c \<Rightarrow> ([info_large, info_existing (bedfile @ ''.db'')], c)
      | None \<Rightarrow> ([info_large, info_creating], init_sqlite_loop Map.empty lines))"

section \<open>The facade\<close>

text \<open>\<^verbatim>\<open>_max_len\<close>, and the number that \<^verbatim>\<open>wc -l\<close> prints: the newline characters of the
  file.\<close>

definition max_len :: nat where
  "max_len = 1000000"

definition wc_l :: "string list \<Rightarrow> nat" where
  "wc_l lines = length (filter (\<lambda>c. c = NL) (concat lines))"

text \<open>A constructed object: \<^verbatim>\<open>_type\<close> is \<^verbatim>\<open>'dt'\<close> with \<^verbatim>\<open>_dict\<close>, or \<^verbatim>\<open>'sq'\<close> with the
  cursor on the database.\<close>

datatype BedFile = Dt dict | Sq db

datatype error = Py py_error | Sqlite sq_error

text \<open>\<^verbatim>\<open>__init__\<close>, given the path, the database found at \<^verbatim>\<open>path + '.db'\<close> (if any) and
  the lines of the file.\<close>

definition BedFile_init ::
    "string \<Rightarrow> db option \<Rightarrow> string list \<Rightarrow> string list \<times> (py_error + BedFile)" where
  "BedFile_init bedfile existing lines =
     (if wc_l lines > max_len then
        (case init_sqlite bedfile existing lines of (out, c) \<Rightarrow> (out, Inr (Sq c)))
      else
        (case init_dict lines of
           Inl e \<Rightarrow> ([], Inl e)
         | Inr d \<Rightarrow> ([], Inr (Dt d))))"

text \<open>\<^verbatim>\<open>str(location)\<close>.\<close>

fun digits_of :: "nat \<Rightarrow> string" where
  "digits_of n =
     (if n < 10 then [char_of (48 + n)]
      else digits_of (n div 10) @ [char_of (48 + n mod 10)])"

definition py_str :: "pyval \<Rightarrow> string" where
  "py_str location =
     (case location of
        PyStr s \<Rightarrow> s
      | PyInt n \<Rightarrow> if n < 0 then CHR ''-'' # digits_of (nat (- n)) else digits_of (nat n))"

text \<open>\<^verbatim>\<open>lookup\<close>: the sqlite path converts the location to text first, the dictionary
  path hands it on as it came.\<close>

fun lookup :: "BedFile \<Rightarrow> string \<Rightarrow> pyval \<Rightarrow> string list \<times> (error + string)" where
  "lookup (Sq c) chromosome location =
     map_prod id (map_sum Sqlite id) (lookup_sqlite c chromosome (py_str location))"
| "lookup (Dt d) chromosome location =
     map_prod id (map_sum Py id) (lookup_dict d chromosome location)"


text \<open>The expression \<^verbatim>\<open>BedFile(bedfile).lookup(chromosome, location)\<close>: construction,
  then one query; the error stream collects what both wrote.\<close>

definition query ::
    "string \<Rightarrow> db option \<Rightarrow> string list \<Rightarrow> string \<Rightarrow> pyval \<Rightarrow>
     string list \<times> (error + string)" where
  "query bedfile existing lines chromosome location =
     (case BedFile_init bedfile existing lines of
        (out, Inl e) \<Rightarrow> (out, Inl (Py e))
      | (out, Inr b) \<Rightarrow>
          (case lookup b chromosome location of (out', r) \<Rightarrow> (out @ out', r)))"

section \<open>Sample files\<close>

text \<open>The three records of the specification's concrete scenario.\<close>

definition gene_a :: string where
  "gene_a = ''chr1'' @ [TAB] @ ''100'' @ [TAB] @ ''200'' @ [TAB] @ ''GENE_A'' @ [NL]"

definition gene_b :: string where
  "gene_b = ''chr1'' @ [TAB] @ ''150'' @ [TAB] @ ''250'' @ [TAB] @ ''GENE_B'' @ [NL]"

definition gene_c :: string where
  "gene_c = ''chr2'' @ [TAB] @ ''10'' @ [TAB] @ ''20'' @ [TAB] @ ''GENE_C'' @ [NL]"

definition scenario :: "string list" where
  "scenario = [gene_a, gene_b, gene_c]"

text \<open>A record whose fourth field is empty (a fifth field follows it), a line of two
  fields, a line whose start is not a number, and a line that ends in a tab after its
  third field.\<close>

definition unnamed :: string where
  "unnamed = ''chr1'' @ [TAB] @ ''100'' @ [TAB] @ ''200'' @ [TAB] @ [TAB] @ ''note'' @ [NL]"

definition two_fields :: string where
  "two_fields = ''chr1'' @ [TAB] @ ''100'' @ [NL]"

definition bad_start :: string where
  "bad_start = ''chr1'' @ [TAB] @ ''1x0'' @ [TAB] @ ''200'' @ [TAB] @ ''GENE_X'' @ [NL]"

definition trailing_tab :: string where
  "trailing_tab = ''chr1'' @ [TAB] @ ''abc'' @ [TAB] @ ''200'' @ [TAB]"

text \<open>\<open>n\<close> empty lines, to bring a file to a given line count.\<close>

definition blank_lines :: "nat \<Rightarrow> string list" where
  "blank_lines n = replicate n [NL]"

section \<open>Auxiliary facts\<close>

lemmas bed_defs =
  init_dict_def init_dict_line_def line_fields_def rstrip_def is_space_def py_int_def
  int_space_def is_digit_def digit_val_def long_ok_def lookup_dict_def to_long_def
  BedFile_init_def query_def wc_l_def max_len_def

lemmas sample_defs =
  scenario_def gene_a_def gene_b_def gene_c_def unnamed_def two_fields_def bad_start_def
  trailing_tab_def

lemma split_tab_nonempty: "split_tab s \<noteq> []"
  by (cases s) (simp_all split: list.split)

lemma length_split_tab: "length (split_tab s) = Suc (length (filter (\<lambda>c. c = TAB) s))"
  by (induction s) (auto simp: split_tab_nonempty split: list.splits)

lemma filter_dropWhile_le: "length (filter P (dropWhile Q xs)) \<le> length (filter P xs)"
  by (induction xs) auto

lemma length_filter_rev: "length (filter P (rev xs)) = length (filter P xs)"
  by (simp add: rev_filter [symmetric])

text \<open>Stripping trailing white space can only remove fields.\<close>

lemma line_fields_le_split_tab: "length (line_fields line) \<le> length (split_tab line)"
proof -
  have "length (filter (\<lambda>c. c = TAB) (dropWhile is_space (rev line)))
      \<le> length (filter (\<lambda>c. c = TAB) (rev line))"
    by (rule filter_dropWhile_le)
  then show ?thesis
    by (simp add: line_fields_def rstrip_def length_split_tab length_filter_rev)
qed

lemma init_dict_line_short: "length (line_fields line) < 4 \<Longrightarrow> init_dict_line d line = Inr d"
  by (simp add: init_dict_line_def)


lemma init_dict_loop_append:
  "init_dict_loop d (xs @ ys) =
     (case init_dict_loop d xs of Inl e \<Rightarrow> Inl e | Inr d' \<Rightarrow> init_dict_loop d' ys)"
  by (induction xs arbitrary: d) (auto split: sum.splits)


lemma BedFile_init_dict:
  "wc_l lines \<le> max_len \<Longrightarrow>
   BedFile_init bedfile existing lines = ([], map_sum id Dt (init_dict lines))"
  by (cases "init_dict lines") (simp_all add: BedFile_init_def)

section \<open>Claims about building the index\<close>

text \<open>
  C6. A line that splits on tab into fewer than four fields is skipped silently: the
  loop leaves the index as it was and does not fail on it, so the file with the line
  builds exactly what the file without it builds, and a construction that takes the
  in-memory path writes nothing to the error stream. The line may be counted as it
  stands or after the code has stripped its trailing white space.
\<close>

theorem short_line_skipped:
  assumes "length (split_tab line) < 4 \<or> length (line_fields line) < 4"
  shows "init_dict_line d line = Inr d \<and>
         init_dict (pre @ line # post) = init_dict (pre @ post) \<and>
         (wc_l (pre @ line # post) \<le> max_len \<longrightarrow>
            BedFile_init bedfile existing (pre @ line # post) =
              ([], map_sum id Dt (init_dict (pre @ post))))"
proof -
  from assms have short: "length (line_fields line) < 4"
    using line_fields_le_split_tab [of line] by auto
  then have skip: "init_dict_line d' line = Inr d'" for d'
    by (rule init_dict_line_short)
  have same: "init_dict (pre @ line # post) = init_dict (pre @ post)"
    by (simp add: init_dict_def init_dict_loop_append skip split: sum.splits)
  from same skip show ?thesis
    by (simp add: BedFile_init_dict)
qed

theorem short_line_skipped_witness:
  "length (split_tab two_fields) < 4 \<and>
   wc_l ([gene_a] @ two_fields # [gene_c]) \<le> max_len \<and>
   init_dict_line Map.empty two_fields = Inr Map.empty \<and>
   init_dict ([gene_a] @ two_fields # [gene_c]) = init_dict ([gene_a] @ [gene_c]) \<and>
   BedFile_init ''genes.bed'' None ([gene_a] @ two_fields # [gene_c]) =
     ([], map_sum id Dt (init_dict ([gene_a] @ [gene_c])))"
proof -
  have h1: "length (split_tab two_fields) < 4"
    by (simp add: two_fields_def)
  have h2: "wc_l ([gene_a] @ two_fields # [gene_c]) \<le> max_len"
    by (simp add: wc_l_def max_len_def sample_defs)
  from h1 h2
    short_line_skipped [OF disjI1 [OF h1], of Map.empty "[gene_a]" "[gene_c]" "''genes.bed''" None]
  show ?thesis by blast
qed






section \<open>Claims about the choice of the backend\<close>

lemma blank_line_fields: "length (line_fields [NL]) < 4"
  by (simp add: line_fields_def rstrip_def is_space_def)

lemma wc_l_blank_lines: "wc_l (blank_lines n @ rest) = n + wc_l rest"
  by (induction n) (simp_all add: blank_lines_def wc_l_def)



lemma init_sqlite_loop_blank_lines:
  "init_sqlite_loop c (blank_lines n @ rest) = init_sqlite_loop c rest"
  by (induction n) (simp_all add: blank_lines_def blank_line_fields)

lemma wc_l_scenario: "wc_l scenario = 3"
  by (simp add: wc_l_def sample_defs)

lemma init_dict_scenario:
  "init_dict scenario =
     Inr [''chr1'' \<mapsto> [\<lparr>se_start = 100, se_end = 200, se_name = ''GENE_A''\<rparr>,
                       \<lparr>se_start = 150, se_end = 250, se_name = ''GENE_B''\<rparr>],
          ''chr2'' \<mapsto> [\<lparr>se_start = 10, se_end = 20, se_name = ''GENE_C''\<rparr>]]"
  by (simp add: bed_defs sample_defs)

lemma init_sqlite_loop_scenario:
  "init_sqlite_loop Map.empty scenario =
     [''chr1'' \<mapsto> [(''GENE_A'', SqlInt 100, SqlInt 200), (''GENE_B'', SqlInt 150, SqlInt 250)],
      ''chr2'' \<mapsto> [(''GENE_C'', SqlInt 10, SqlInt 20)]]"
  by (simp add: bed_defs sample_defs insert_row_def int_affinity_def sql_literal_def)




section \<open>Claims about queries on the in-memory index\<close>

text \<open>The loop returns the name of the first record that strictly contains the
  location, and the initial empty answer when there is none.\<close>

lemma scan_find:
  "scan recs loc =
     (case find (\<lambda>r. se_start r < loc \<and> loc < se_end r) recs of
        None \<Rightarrow> []
      | Some r \<Rightarrow> se_name r)"
  by (induction recs) simp_all

lemma lookup_dict_absent:
  "d chromosome = None \<Longrightarrow> to_long location = Inr loc \<Longrightarrow>
   lookup_dict d chromosome location = ([chromosome_warning chromosome], Inr [])"
  by (simp add: lookup_dict_def)

lemma lookup_dict_first_match:
  "d chromosome = Some recs \<Longrightarrow> to_long location = Inr loc \<Longrightarrow>
   find (\<lambda>r. se_start r < loc \<and> loc < se_end r) recs = Some r \<Longrightarrow> se_name r \<noteq> [] \<Longrightarrow>
   lookup_dict d chromosome location = ([], Inr (se_name r))"
  by (simp add: lookup_dict_def scan_find)

text \<open>With no answer to return, the outcome depends on how the location was passed.\<close>

lemma lookup_dict_empty_answer_str:
  "d chromosome = Some recs \<Longrightarrow> to_long (PyStr s) = Inr loc \<Longrightarrow> scan recs loc = [] \<Longrightarrow>
   lookup_dict d chromosome (PyStr s) = ([location_warning s chromosome], Inr [])"
  by (simp add: lookup_dict_def)

lemma lookup_dict_empty_answer_int:
  "d chromosome = Some recs \<Longrightarrow> long_ok n \<Longrightarrow> scan recs n = [] \<Longrightarrow>
   lookup_dict d chromosome (PyInt n) = ([], Inl TypeError)"
  by (simp add: lookup_dict_def to_long_def)

lemma query_scenario:
  "query bedfile existing scenario chromosome location =
     map_prod id (map_sum Py id)
       (lookup_dict
          [''chr1'' \<mapsto> [\<lparr>se_start = 100, se_end = 200, se_name = ''GENE_A''\<rparr>,
                         \<lparr>se_start = 150, se_end = 250, se_name = ''GENE_B''\<rparr>],
           ''chr2'' \<mapsto> [\<lparr>se_start = 10, se_end = 20, se_name = ''GENE_C''\<rparr>]]
          chromosome location)"
proof -
  have "wc_l scenario \<le> max_len"
    by (simp add: wc_l_scenario max_len_def)
  then show ?thesis
    by (cases "lookup_dict (projr (init_dict scenario)) chromosome location")
       (simp add: query_def BedFile_init_dict init_dict_scenario)
qed

lemmas lookup_defs = lookup_dict_def to_long_def long_ok_def py_int_def int_space_def
  is_digit_def digit_val_def



text \<open>
  C1 at a first match without a name. In the file below the first record that strictly
  contains 160 has the empty name. Asked with the integer 160, the query raises
  \<^verbatim>\<open>TypeError\<close> while it builds the diagnostic, instead of returning that name; asked
  with the string, it returns it. On the scenario itself the query for 160 on chr1
  returns GENE_A, the first of the two records that contain it.
\<close>

theorem first_match_without_name_raises:
  "query ''genes.bed'' None [unnamed, gene_b] ''chr1'' (PyInt 160) = ([], Inl (Py TypeError)) \<and>
   query ''genes.bed'' None [unnamed, gene_b] ''chr1'' (PyStr ''160'') =
     ([location_warning ''160'' ''chr1''], Inr []) \<and>
   query ''genes.bed'' None scenario ''chr1'' (PyInt 160) = ([], Inr ''GENE_A'')"
  by (simp add: bed_defs sample_defs)

text \<open>
  C2 at the scenario's own boundary. Position 100 is the start of GENE_A and lies
  strictly inside no record of chr1. Asked with the integer 100, the query raises
  \<^verbatim>\<open>TypeError\<close>; asked with the string, it returns the empty string. The same holds at
  the end 250 of GENE_B.
\<close>

theorem boundary_position_raises:
  "query ''genes.bed'' None scenario ''chr1'' (PyInt 100) = ([], Inl (Py TypeError)) \<and>
   query ''genes.bed'' None scenario ''chr1'' (PyStr ''100'') =
     ([location_warning ''100'' ''chr1''], Inr []) \<and>
   query ''genes.bed'' None scenario ''chr1'' (PyInt 250) = ([], Inl (Py TypeError))"
  by (simp add: query_scenario lookup_defs)

text \<open>
  C5 on the scenario. An absent chromosome gives the empty string and the chromosome
  diagnostic, however the position is passed. A present chromosome with no covering
  record gives the empty string and the position diagnostic only when the position is a
  string: with the integer 25 the query raises \<^verbatim>\<open>TypeError\<close> and writes nothing.
\<close>

theorem position_not_found_raises:
  "query ''genes.bed'' None scenario ''chr2'' (PyInt 25) = ([], Inl (Py TypeError)) \<and>
   query ''genes.bed'' None scenario ''chr2'' (PyStr ''25'') =
     ([location_warning ''25'' ''chr2''], Inr []) \<and>
   query ''genes.bed'' None scenario ''chr3'' (PyInt 5) =
     ([chromosome_warning ''chr3''], Inr [])"
  by (simp add: query_scenario lookup_defs)

text \<open>
  C9 on a file whose only record has the empty name. The record strictly contains 150.
  Asked with the integer 150, the query raises \<^verbatim>\<open>TypeError\<close> and writes nothing; the
  same query at 250, which no record contains, raises too. Asked with strings, both
  return the empty string with the position diagnostic.
\<close>

theorem empty_name_match_raises:
  "query ''genes.bed'' None [unnamed] ''chr1'' (PyInt 150) = ([], Inl (Py TypeError)) \<and>
   query ''genes.bed'' None [unnamed] ''chr1'' (PyInt 250) = ([], Inl (Py TypeError)) \<and>
   query ''genes.bed'' None [unnamed] ''chr1'' (PyStr ''150'') =
     ([location_warning ''150'' ''chr1''], Inr []) \<and>
   query ''genes.bed'' None [unnamed] ''chr1'' (PyStr ''250'') =
     ([location_warning ''250'' ''chr1''], Inr [])"
  by (simp add: bed_defs sample_defs)

section \<open>The two backends on a boundary\<close>

text \<open>
  C4 on the scenario. Brought to 1,000,001 lines by blank lines, the file is served by
  sqlite, and the query for position 100 on chr1, the start of GENE_A, returns GENE_A:
  \<^verbatim>\<open>BETWEEN\<close> includes both bounds. The in-memory index built from the same three
  records finds nothing at 100.
\<close>

theorem sqlite_matches_boundary:
  "query ''genes.bed'' None (blank_lines 999998 @ scenario) ''chr1'' (PyInt 100) =
     ([info_large, info_creating], Inr ''GENE_A'') \<and>
   query ''genes.bed'' None (blank_lines 999998 @ scenario) ''chr1'' (PyStr ''100'') =
     ([info_large, info_creating], Inr ''GENE_A'') \<and>
   query ''genes.bed'' None scenario ''chr1'' (PyStr ''100'') =
     ([location_warning ''100'' ''chr1''], Inr [])"
proof -
  have large: "max_len < wc_l (blank_lines 999998 @ scenario)"
    by (simp add: wc_l_blank_lines wc_l_scenario max_len_def)
  have built: "BedFile_init ''genes.bed'' None (blank_lines 999998 @ scenario) =
      ([info_large, info_creating], Inr (Sq (init_sqlite_loop Map.empty scenario)))"
    using large by (simp add: BedFile_init_def init_sqlite_def init_sqlite_loop_blank_lines)
  have sq: "lookup_sqlite (init_sqlite_loop Map.empty scenario) ''chr1'' ''100'' =
      ([], Inr ''GENE_A'')"
    by (simp add: init_sqlite_loop_scenario lookup_sqlite_def sql_literal_def is_digit_def
        digit_val_def index_order_def)
  have str: "py_str (PyInt 100) = ''100''" "py_str (PyStr ''100'') = ''100''"
    by code_simp+
  have dt: "query ''genes.bed'' None scenario ''chr1'' (PyStr ''100'') =
      ([location_warning ''100'' ''chr1''], Inr [])"
    by (simp add: query_scenario lookup_defs)
  show ?thesis
    unfolding query_def built by (simp add: sq str dt [unfolded query_def])
qed

end
